theory Spec2Isabelle
  imports Complex_Main
begin

section \<open>AnimatedFAB: the data of the component\<close>

text \<open>
  The component of \<^verbatim>\<open>src/components/FAB/AnimatedFAB.tsx\<close> is a function of its props and of
  two pieces of React state, \<^verbatim>\<open>textWidth\<close> and \<^verbatim>\<open>textHeight\<close>. JavaScript numbers are
  modelled as reals. A colour string is represented by the RGBA value it denotes, so that
  \<^verbatim>\<open>color(c).alpha(a).rgb().string()\<close> is the update of the alpha channel of \<open>c\<close>; strings
  that the colour package cannot parse are outside the model.
\<close>

datatype error = TypeError | InvariantViolation

datatype animate_from = Right | Left

datatype icon_mode = Static | Dynamic

record rgba =
  red :: nat
  green :: nat
  blue :: nat
  alpha :: real

record theme =
  dark :: bool
  accent :: rgba
  scale :: real

text \<open>
  The props the computations below read. An optional prop is an \<open>option\<close>, \<open>None\<close> being
  \<^verbatim>\<open>undefined\<close>; \<open>styleBackgroundColor\<close> is the \<^verbatim>\<open>backgroundColor\<close> of the flattened
  \<^verbatim>\<open>style\<close> prop.
\<close>

record props =
  label :: string
  color :: "rgba option"
  disabled :: "bool option"
  animateFrom :: "animate_from option"
  extended :: "bool option"
  iconMode :: "icon_mode option"
  styleBackgroundColor :: "rgba option"
  theme :: theme

record measurement =
  textWidth :: real
  textHeight :: real

record TextLayoutLine =
  width :: real
  height :: real

record TextLayoutEventData =
  lines :: "TextLayoutLine list"

definition SIZE :: real where
  "SIZE = 56"

definition BORDER_RADIUS :: real where
  "BORDER_RADIUS = SIZE / 2"

definition SCALE :: real where
  "SCALE = 0.9"

text \<open>\<^verbatim>\<open>React.useState<number>(0)\<close>, twice: nothing has been measured yet.\<close>

definition initialMeasurement :: measurement where
  "initialMeasurement = \<lparr>textWidth = 0, textHeight = 0\<rparr>"

text \<open>Defaults of the destructured props, and the truthiness of \<^verbatim>\<open>disabled\<close>.\<close>

definition isAnimatedFromRight :: "props \<Rightarrow> bool" where
  "isAnimatedFromRight p = ((case animateFrom p of None \<Rightarrow> Right | Some a \<Rightarrow> a) = Right)"

definition isExtended :: "props \<Rightarrow> bool" where
  "isExtended p = (case extended p of None \<Rightarrow> False | Some b \<Rightarrow> b)"

definition isDisabled :: "props \<Rightarrow> bool" where
  "isDisabled p = (case disabled p of None \<Rightarrow> False | Some b \<Rightarrow> b)"

section \<open>Geometry of the transition\<close>

definition extendedWidth :: "measurement \<Rightarrow> real" where
  "extendedWidth m = textWidth m + 1.5 * SIZE"

definition distance :: "props \<Rightarrow> measurement \<Rightarrow> real" where
  "distance p m =
     (if isAnimatedFromRight p then - textWidth m - BORDER_RADIUS
      else textWidth m + BORDER_RADIUS)"

text \<open>The \<^verbatim>\<open>toValue\<close> of the timing animation that the effect starts on \<^verbatim>\<open>animFAB\<close>.\<close>

definition toValue :: "props \<Rightarrow> measurement \<Rightarrow> real" where
  "toValue p m = (if \<not> isExtended p then 0 else distance p m)"

record sides_position =
  left :: "real option"
  right :: "real option"

definition getSidesPosition :: "props \<Rightarrow> measurement \<Rightarrow> sides_position" where
  "getSidesPosition p m =
     (if isAnimatedFromRight p then \<lparr>left = Some (- distance p m), right = None\<rparr>
      else \<lparr>left = None, right = Some (distance p m)\<rparr>)"

section \<open>The interpolation primitive of the host\<close>

text \<open>
  Modelled from the spec: the \<^verbatim>\<open>interpolate(inputRanges, outputRanges)\<close> projection of the
  tweened value, which the specification names as a capability of the host and which is
  not part of this repository. The model follows the primitive the component is written
  against, \<^verbatim>\<open>Animated.Value.interpolate\<close> of react-native, with the defaults the component
  uses: linear easing, and extrapolation that extends the outer segments. That primitive
  rejects a configuration (an invariant violation, thrown when the interpolation is
  created) when a range has fewer than two points, when the input range is not
  monotonically non-decreasing, or when the two ranges differ in length. Otherwise the
  input selects a segment (\<open>findRange\<close>) and is mapped linearly on it.
\<close>

record InterpolationConfig =
  inputRange :: "real list"
  outputRange :: "real list"

fun monotonicallyNonDecreasing :: "real list \<Rightarrow> bool" where
  "monotonicallyNonDecreasing (a # b # rest) = (a \<le> b \<and> monotonicallyNonDecreasing (b # rest))"
| "monotonicallyNonDecreasing _ = True"

text \<open>
  The index of the segment of the input: the loop
  \<^verbatim>\<open>for (i = 1; i < inputRange.length - 1; ++i) if (inputRange[i] >= input) break;\<close>
  followed by \<^verbatim>\<open>return i - 1\<close>, as a recursion on the range.
\<close>

fun findRange :: "real \<Rightarrow> real list \<Rightarrow> nat" where
  "findRange input (a # b # c # rest) =
     (if b \<ge> input then 0 else Suc (findRange input (b # c # rest)))"
| "findRange input _ = 0"

definition interpolateSegment :: "real \<Rightarrow> real \<Rightarrow> real \<Rightarrow> real \<Rightarrow> real \<Rightarrow> real" where
  "interpolateSegment input inputMin inputMax outputMin outputMax =
     (if outputMin = outputMax then outputMin
      else if inputMin = inputMax then (if input \<le> inputMin then outputMin else outputMax)
      else (input - inputMin) / (inputMax - inputMin) * (outputMax - outputMin) + outputMin)"

text \<open>The value on the selected segment, with no check of the configuration.\<close>

definition interpolateUnchecked :: "InterpolationConfig \<Rightarrow> real \<Rightarrow> real" where
  "interpolateUnchecked config input =
     (let range = findRange input (inputRange config)
      in interpolateSegment input
           (inputRange config ! range) (inputRange config ! (range + 1))
           (outputRange config ! range) (outputRange config ! (range + 1)))"

definition interpolate :: "InterpolationConfig \<Rightarrow> real \<Rightarrow> error + real" where
  "interpolate config input =
     (if length (outputRange config) < 2 then Inl InvariantViolation
      else if length (inputRange config) < 2 then Inl InvariantViolation
      else if \<not> monotonicallyNonDecreasing (inputRange config) then Inl InvariantViolation
      else if length (inputRange config) \<noteq> length (outputRange config)
        then Inl InvariantViolation
      else Inr (interpolateUnchecked config input))"

section \<open>Styles driven by the progress value\<close>

text \<open>
  Each function below is one style expression of the rendered tree, as a function of the
  props, the measurement and the current value \<open>animFAB\<close> of the progress.
\<close>

definition pillScaleY :: "props \<Rightarrow> measurement \<Rightarrow> real \<Rightarrow> error + real" where
  "pillScaleY p m animFAB =
     interpolate
       \<lparr>inputRange = (if isAnimatedFromRight p then [distance p m, 0] else [0, distance p m]),
        outputRange = (if isAnimatedFromRight p then [SCALE, 1] else [1, SCALE])\<rparr>
       animFAB"

text \<open>The shadow under the extended silhouette: its width, and its opacity.\<close>

definition expandedShadowWidth :: "measurement \<Rightarrow> real" where
  "expandedShadowWidth m = extendedWidth m"

definition expandedShadowOpacity :: "props \<Rightarrow> measurement \<Rightarrow> real \<Rightarrow> error + real" where
  "expandedShadowOpacity p m animFAB =
     interpolate
       \<lparr>inputRange = [distance p m, 0.9 * distance p m, 0],
        outputRange = [1, 0.15, 0]\<rparr>
       animFAB"

text \<open>The shadow under the collapsed silhouette.\<close>

definition collapsedShadowWidth :: real where
  "collapsedShadowWidth = SIZE"

definition collapsedShadowOpacity :: "props \<Rightarrow> measurement \<Rightarrow> real \<Rightarrow> error + real" where
  "collapsedShadowOpacity p m animFAB =
     interpolate
       \<lparr>inputRange = [distance p m, 0.9 * distance p m, 0],
        outputRange = [0, 0.85, 1]\<rparr>
       animFAB"

definition collapsedShadowBorderRadius :: "props \<Rightarrow> measurement \<Rightarrow> real \<Rightarrow> error + real" where
  "collapsedShadowBorderRadius p m animFAB =
     interpolate
       \<lparr>inputRange = [distance p m, 0],
        outputRange = [SIZE / (extendedWidth m / SIZE), BORDER_RADIUS]\<rparr>
       animFAB"

definition collapsedShadowTranslateX :: "props \<Rightarrow> measurement \<Rightarrow> real \<Rightarrow> error + real" where
  "collapsedShadowTranslateX p m animFAB =
     interpolate
       \<lparr>inputRange = [distance p m, 0],
        outputRange = [\<bar>distance p m\<bar> / 2, \<bar>distance p m\<bar>]\<rparr>
       animFAB"

definition collapsedShadowScaleX :: "props \<Rightarrow> measurement \<Rightarrow> real \<Rightarrow> error + real" where
  "collapsedShadowScaleX p m animFAB =
     interpolate
       \<lparr>inputRange = [distance p m, 0],
        outputRange = [extendedWidth m / SIZE, 1]\<rparr>
       animFAB"

text \<open>
  The pill: \<^verbatim>\<open>styles.standard\<close>, then the translation by the progress and the width, then
  the side that \<open>getSidesPosition\<close> pins. (Its background colour is \<open>backgroundColor\<close> below.)
\<close>

record pill_style =
  pillHeight :: real
  pillBorderRadius :: real
  pillTranslateX :: real
  pillWidth :: real
  pillSides :: sides_position

definition pillStyle :: "props \<Rightarrow> measurement \<Rightarrow> real \<Rightarrow> pill_style" where
  "pillStyle p m animFAB =
     \<lparr>pillHeight = SIZE,
      pillBorderRadius = BORDER_RADIUS,
      pillTranslateX = animFAB,
      pillWidth = extendedWidth m,
      pillSides = getSidesPosition p m\<rparr>"

text \<open>
  The wrapper around the pill, \<^verbatim>\<open>styles.innerWrapper\<close>: a row that clips its content and has
  the corner radius of the pill.
\<close>

datatype overflow = Visible | Hidden

record wrapper_style =
  wrapperOverflow :: overflow
  wrapperBorderRadius :: real

definition innerWrapper :: wrapper_style where
  "innerWrapper = \<lparr>wrapperOverflow = Hidden, wrapperBorderRadius = BORDER_RADIUS\<rparr>"

text \<open>
  Modelled from the spec: what the host's layout shows of the pill, which is not part of
  this repository. The wrapper has no width of its own and lays out the pill as its only
  child, so its box is the laid-out box of the pill, from 0 to \<open>pillWidth\<close>. The side
  offset of the pill (\<^verbatim>\<open>left\<close>, or \<^verbatim>\<open>right\<close> counted backwards; \<^verbatim>\<open>left\<close> wins when both are
  set) and its translation displace the pill from that box without changing the layout,
  and a wrapper whose overflow is hidden shows only the part of the pill inside its box.
  This is the width of the pill that the specification speaks of: the surface is sized to
  the extended width even while it is visually collapsed.
\<close>

definition pillOffset :: "pill_style \<Rightarrow> real" where
  "pillOffset s =
     (case left (pillSides s) of
        Some l \<Rightarrow> l
      | None \<Rightarrow> (case right (pillSides s) of Some r \<Rightarrow> - r | None \<Rightarrow> 0))
     + pillTranslateX s"

definition visibleWidth :: "wrapper_style \<Rightarrow> pill_style \<Rightarrow> real" where
  "visibleWidth w s =
     (case wrapperOverflow w of
        Visible \<Rightarrow> pillWidth s
      | Hidden \<Rightarrow>
          max 0 (min (pillWidth s) (pillOffset s + pillWidth s) - max 0 (pillOffset s)))"

definition labelOpacity :: "props \<Rightarrow> measurement \<Rightarrow> real \<Rightarrow> error + real" where
  "labelOpacity p m animFAB =
     interpolate
       \<lparr>inputRange =
          (if isAnimatedFromRight p then [distance p m, 0.7 * distance p m, 0]
           else [0, 0.7 * distance p m, distance p m]),
        outputRange = (if isAnimatedFromRight p then [1, 0, 0] else [0, 0, 1])\<rparr>
       animFAB"

definition labelTranslateX :: "props \<Rightarrow> measurement \<Rightarrow> real \<Rightarrow> error + real" where
  "labelTranslateX p m animFAB =
     interpolate
       \<lparr>inputRange = (if isAnimatedFromRight p then [distance p m, 0] else [0, distance p m]),
        outputRange = (if isAnimatedFromRight p then [0, SIZE] else [- SIZE, 0])\<rparr>
       animFAB"

section \<open>Measuring the label\<close>

text \<open>
  \<open>onTextLayout\<close> reads the first line of the event. \<^verbatim>\<open>nativeEvent.lines[0]\<close> is
  \<^verbatim>\<open>undefined\<close> when the array is empty, and reading \<^verbatim>\<open>.width\<close> of it throws a TypeError.
  \<^verbatim>\<open>Math.ceil\<close> is the ceiling. The handler's effect is the calls of the two state setters
  it makes; \<open>applySetter\<close> is what a call does to the state.
\<close>

datatype setter = SetTextWidth real | SetTextHeight real

definition onTextLayout :: "TextLayoutEventData \<Rightarrow> measurement \<Rightarrow> error + setter list" where
  "onTextLayout nativeEvent m =
     (case lines nativeEvent of
        [] \<Rightarrow> Inl TypeError
      | line # _ \<Rightarrow>
          (let currentWidth = real_of_int \<lceil>width line\<rceil>;
               currentHeight = real_of_int \<lceil>height line\<rceil>
           in if currentWidth \<noteq> textWidth m \<or> currentHeight \<noteq> textHeight m
              then Inr [SetTextWidth currentWidth, SetTextHeight currentHeight]
              else Inr []))"

fun applySetter :: "measurement \<Rightarrow> setter \<Rightarrow> measurement" where
  "applySetter m (SetTextWidth w) = m\<lparr>textWidth := w\<rparr>"
| "applySetter m (SetTextHeight h) = m\<lparr>textHeight := h\<rparr>"

text \<open>The measurement after the event: unchanged when the handler throws.\<close>

definition afterTextLayout :: "TextLayoutEventData \<Rightarrow> measurement \<Rightarrow> measurement" where
  "afterTextLayout nativeEvent m =
     (case onTextLayout nativeEvent m of
        Inl _ \<Rightarrow> m
      | Inr calls \<Rightarrow> foldl applySetter m calls)"

section \<open>Colours\<close>

text \<open>
  Modelled from the spec: the constants \<^verbatim>\<open>white\<close> and \<^verbatim>\<open>black\<close> of
  \<^verbatim>\<open>src/styles/colors\<close>, which is not among the sources: the white and the black ink.
\<close>

definition white :: rgba where
  "white = \<lparr>red = 255, green = 255, blue = 255, alpha = 1\<rparr>"

definition black :: rgba where
  "black = \<lparr>red = 0, green = 0, blue = 0, alpha = 1\<rparr>"

text \<open>
  Modelled from the spec: \<^verbatim>\<open>getContrastingColor\<close> of \<^verbatim>\<open>src/utils\<close>, which is not among the
  sources. It answers the one of the two inks \<open>light\<close> and \<open>dark\<close> that yields the higher
  contrast against \<open>input\<close>. The spec leaves the measure of contrast to the colour
  utilities, so it is the parameter \<open>contrast\<close>; on a tie the light ink is taken.
\<close>

definition getContrastingColor ::
    "(rgba \<Rightarrow> rgba \<Rightarrow> real) \<Rightarrow> rgba \<Rightarrow> rgba \<Rightarrow> rgba \<Rightarrow> rgba" where
  "getContrastingColor contrast input light dark_ink =
     (if contrast input light < contrast input dark_ink then dark_ink else light)"

text \<open>The literal \<^verbatim>\<open>'rgba(0, 0, 0, .54)'\<close>.\<close>

definition nearBlack :: rgba where
  "nearBlack = \<lparr>red = 0, green = 0, blue = 0, alpha = 0.54\<rparr>"

definition disabledColor :: "props \<Rightarrow> rgba" where
  "disabledColor p = (if dark (theme p) then white else black)\<lparr>alpha := 0.12\<rparr>"

definition backgroundColor :: "props \<Rightarrow> rgba" where
  "backgroundColor p =
     (case styleBackgroundColor p of
        Some c \<Rightarrow> c
      | None \<Rightarrow> (if isDisabled p then disabledColor p else accent (theme p)))"

definition foregroundColor :: "(rgba \<Rightarrow> rgba \<Rightarrow> real) \<Rightarrow> props \<Rightarrow> rgba" where
  "foregroundColor contrast p =
     (case color p of
        Some customColor \<Rightarrow> customColor
      | None \<Rightarrow>
          (if isDisabled p then (if dark (theme p) then white else black)\<lparr>alpha := 0.32\<rparr>
           else getContrastingColor contrast (backgroundColor p) white nearBlack))"

definition rippleColor :: "(rgba \<Rightarrow> rgba \<Rightarrow> real) \<Rightarrow> props \<Rightarrow> rgba" where
  "rippleColor contrast p = (foregroundColor contrast p)\<lparr>alpha := 0.32\<rparr>"

section \<open>The scenario of the specification\<close>

text \<open>
  The end-to-end scenario of the specification: the label \<^verbatim>\<open>Add item\<close>, \<^verbatim>\<open>extended\<close> set, every
  other prop left to its default, on a light theme. The theorems below are instantiated
  on it and on variations of it.
\<close>

definition scenarioProps :: props where
  "scenarioProps =
     \<lparr>label = ''Add item'', color = None, disabled = None, animateFrom = None,
      extended = Some True, iconMode = None, styleBackgroundColor = None,
      theme = \<lparr>dark = False, accent = \<lparr>red = 3, green = 218, blue = 196, alpha = 1\<rparr>,
                scale = 1\<rparr>\<rparr>"

section \<open>Claims about the distance\<close>

lemmas geometry_defs =
  distance_def isAnimatedFromRight_def isExtended_def toValue_def extendedWidth_def
  getSidesPosition_def BORDER_RADIUS_def SIZE_def

text \<open>
  C1. For every measured (non-negative) label width \<open>W\<close> the distance is \<open>- (W + 28)\<close> when
  the FAB is animated from the right, which is the default, and \<open>W + 28\<close> when it is
  animated from the left; its magnitude is \<open>W + 28\<close> in both directions, 28 being the
  corner radius, half the diameter 56.
\<close>

theorem distance_signed_by_direction:
  "BORDER_RADIUS = 28 \<and>
   (animateFrom p = None \<or> animateFrom p = Some Right \<longrightarrow>
      distance p m = - (textWidth m + 28)) \<and>
   (animateFrom p = Some Left \<longrightarrow> distance p m = textWidth m + 28) \<and>
   (0 \<le> textWidth m \<longrightarrow> \<bar>distance p m\<bar> = textWidth m + 28)"
  by (auto simp: geometry_defs split: option.splits animate_from.splits)

theorem distance_signed_by_direction_witness:
  "distance scenarioProps \<lparr>textWidth = 100, textHeight = 17\<rparr> = - 128 \<and>
   distance (scenarioProps\<lparr>animateFrom := Some Right\<rparr>)
     \<lparr>textWidth = 100, textHeight = 17\<rparr> = - 128 \<and>
   distance (scenarioProps\<lparr>animateFrom := Some Left\<rparr>)
     \<lparr>textWidth = 100, textHeight = 17\<rparr> = 128 \<and>
   \<bar>distance scenarioProps \<lparr>textWidth = 100, textHeight = 17\<rparr>\<bar> = 128"
  using
    distance_signed_by_direction [of scenarioProps "\<lparr>textWidth = 100, textHeight = 17\<rparr>"]
    distance_signed_by_direction [of "scenarioProps\<lparr>animateFrom := Some Right\<rparr>"
      "\<lparr>textWidth = 100, textHeight = 17\<rparr>"]
    distance_signed_by_direction [of "scenarioProps\<lparr>animateFrom := Some Left\<rparr>"
      "\<lparr>textWidth = 100, textHeight = 17\<rparr>"]
  by (simp add: scenarioProps_def)

text \<open>
  C3, as stated: the distance strictly increases with the measured width, whatever the
  direction. It fails in the default direction, where a wider label gives a more negative
  distance: the widths 0 and 1 give \<open>- 28\<close> and \<open>- 29\<close>.
\<close>

theorem distance_increasing_counterexample:
  "\<not> distance scenarioProps \<lparr>textWidth = 0, textHeight = 0\<rparr>
       < distance scenarioProps \<lparr>textWidth = 1, textHeight = 0\<rparr>"
  by (simp add: geometry_defs scenarioProps_def)

text \<open>
  C3, amended. With the direction fixed and \<open>w1 < w2\<close>, the distance strictly increases
  when the FAB is animated from the left and strictly decreases when it is animated from
  the right; for non-negative widths its magnitude strictly increases in both directions.
\<close>

theorem distance_monotone_in_width:
  assumes "textWidth m1 < textWidth m2"
  shows "(if isAnimatedFromRight p then distance p m2 < distance p m1
          else distance p m1 < distance p m2) \<and>
         (0 \<le> textWidth m1 \<longrightarrow> \<bar>distance p m1\<bar> < \<bar>distance p m2\<bar>)"
  using assms by (simp add: geometry_defs)

theorem distance_monotone_in_width_witness:
  "distance scenarioProps \<lparr>textWidth = 101, textHeight = 17\<rparr>
     < distance scenarioProps \<lparr>textWidth = 100, textHeight = 17\<rparr> \<and>
   distance (scenarioProps\<lparr>animateFrom := Some Left\<rparr>) \<lparr>textWidth = 100, textHeight = 17\<rparr>
     < distance (scenarioProps\<lparr>animateFrom := Some Left\<rparr>)
         \<lparr>textWidth = 101, textHeight = 17\<rparr> \<and>
   \<bar>distance scenarioProps \<lparr>textWidth = 100, textHeight = 17\<rparr>\<bar>
     < \<bar>distance scenarioProps \<lparr>textWidth = 101, textHeight = 17\<rparr>\<bar>"
proof -
  have h: "textWidth \<lparr>textWidth = 100, textHeight = 17\<rparr>
             < textWidth \<lparr>textWidth = 101, textHeight = 17\<rparr>"
    by simp
  show ?thesis
    using distance_monotone_in_width [OF h, of scenarioProps]
      distance_monotone_in_width [OF h, of "scenarioProps\<lparr>animateFrom := Some Left\<rparr>"]
    by (simp add: isAnimatedFromRight_def scenarioProps_def)
qed

text \<open>
  C7. Direction symmetry: for a fixed measured width, the distance animated from the left
  and the distance animated from the right are opposite numbers, so they have the same
  absolute value, and for a non-negative width the first is positive and the second is
  negative. The side that \<open>getSidesPosition\<close> pins mirrors with them: the same offset, on
  the left for one direction and on the right for the other.
\<close>

theorem distance_direction_symmetry:
  "distance (p\<lparr>animateFrom := Some Left\<rparr>) m = - distance (p\<lparr>animateFrom := Some Right\<rparr>) m \<and>
   \<bar>distance (p\<lparr>animateFrom := Some Left\<rparr>) m\<bar>
     = \<bar>distance (p\<lparr>animateFrom := Some Right\<rparr>) m\<bar> \<and>
   (0 \<le> textWidth m \<longrightarrow>
      distance (p\<lparr>animateFrom := Some Right\<rparr>) m < 0 \<and>
      0 < distance (p\<lparr>animateFrom := Some Left\<rparr>) m) \<and>
   left (getSidesPosition (p\<lparr>animateFrom := Some Right\<rparr>) m)
     = right (getSidesPosition (p\<lparr>animateFrom := Some Left\<rparr>) m)"
  by (simp add: geometry_defs)

theorem distance_direction_symmetry_witness:
  "distance (scenarioProps\<lparr>animateFrom := Some Right\<rparr>)
     \<lparr>textWidth = 100, textHeight = 17\<rparr> < 0 \<and>
   0 < distance (scenarioProps\<lparr>animateFrom := Some Left\<rparr>)
         \<lparr>textWidth = 100, textHeight = 17\<rparr> \<and>
   left (getSidesPosition (scenarioProps\<lparr>animateFrom := Some Right\<rparr>)
           \<lparr>textWidth = 100, textHeight = 17\<rparr>) = Some 128"
  using distance_direction_symmetry [of scenarioProps "\<lparr>textWidth = 100, textHeight = 17\<rparr>"]
  by (simp add: geometry_defs)

text \<open>
  C10. Before any measurement has arrived the stored width is 0, and for a stored width of
  0 the derived geometry is not zero: the extended width is 84, the distance has
  magnitude 28, and with \<^verbatim>\<open>extended\<close> set the progress is animated to \<open>- 28\<close> (from the
  right) or \<open>28\<close> (from the left), not to 0.
\<close>

theorem zero_width_geometry:
  "textWidth initialMeasurement = 0 \<and>
   extendedWidth (m\<lparr>textWidth := 0\<rparr>) = 84 \<and>
   \<bar>distance p (m\<lparr>textWidth := 0\<rparr>)\<bar> = 28 \<and>
   toValue (p\<lparr>extended := Some True\<rparr>) (m\<lparr>textWidth := 0\<rparr>)
     = (if isAnimatedFromRight p then - 28 else 28) \<and>
   toValue (p\<lparr>extended := Some True\<rparr>) (m\<lparr>textWidth := 0\<rparr>) \<noteq> 0"
  by (simp add: geometry_defs initialMeasurement_def)

theorem zero_width_geometry_witness:
  "extendedWidth initialMeasurement = 84 \<and>
   distance scenarioProps initialMeasurement = - 28 \<and>
   toValue scenarioProps initialMeasurement = - 28"
  using zero_width_geometry [of initialMeasurement scenarioProps]
  by (simp add: geometry_defs initialMeasurement_def scenarioProps_def)

section \<open>Claims about the styles driven by the progress\<close>

lemmas interpolate_defs =
  interpolate_def interpolateUnchecked_def interpolateSegment_def

lemmas pill_defs =
  pillStyle_def pillOffset_def visibleWidth_def innerWrapper_def

text \<open>
  The style of the pill gives it the extended width at every progress: the progress
  moves the pill, it does not resize it.
\<close>

lemma pill_style_width:
  "pillWidth (pillStyle p m animFAB) = extendedWidth m"
  by (simp add: pillStyle_def)

text \<open>
  What shows of the pill between the two ends, for a non-negative measured width and a
  progress between 0 and the distance: the diameter plus the magnitude of the progress.
\<close>

lemma pill_visible_width:
  assumes "0 \<le> textWidth m" and "\<bar>animFAB\<bar> \<le> \<bar>distance p m\<bar>"
    and "0 \<le> animFAB * distance p m"
  shows "visibleWidth innerWrapper (pillStyle p m animFAB) = SIZE + \<bar>animFAB\<bar>"
proof (cases "isAnimatedFromRight p")
  case True
  with assms have "animFAB \<le> 0" and "- textWidth m - 28 \<le> animFAB"
    by (auto simp: geometry_defs mult_le_0_iff zero_le_mult_iff)
  with True show ?thesis
    by (simp add: pill_defs geometry_defs)
next
  case False
  with assms have "0 \<le> animFAB" and "animFAB \<le> textWidth m + 28"
    by (auto simp: geometry_defs mult_le_0_iff zero_le_mult_iff)
  with False show ?thesis
    by (simp add: pill_defs geometry_defs)
qed

text \<open>
  Animated from the right, every interpolation of the render is accepted, at every
  progress.
\<close>

lemma interpolations_from_right_accepted:
  assumes "isAnimatedFromRight p" and "0 \<le> textWidth m"
  shows "\<not> isl (pillScaleY p m animFAB) \<and>
         \<not> isl (expandedShadowOpacity p m animFAB) \<and>
         \<not> isl (collapsedShadowOpacity p m animFAB) \<and>
         \<not> isl (collapsedShadowBorderRadius p m animFAB) \<and>
         \<not> isl (collapsedShadowTranslateX p m animFAB) \<and>
         \<not> isl (collapsedShadowScaleX p m animFAB) \<and>
         \<not> isl (labelOpacity p m animFAB) \<and>
         \<not> isl (labelTranslateX p m animFAB)"
  using assms
  by (simp add: pillScaleY_def expandedShadowOpacity_def collapsedShadowOpacity_def
        collapsedShadowBorderRadius_def collapsedShadowTranslateX_def
        collapsedShadowScaleX_def labelOpacity_def labelTranslateX_def interpolate_def
        geometry_defs)

text \<open>
  C2. Endpoint consistency, for a non-negative measured width. At progress 0 the width of
  the pill, as the clipping wrapper shows it, is the fixed diameter 56, and the corner
  radius of the pill and of the wrapper is \<open>56 / 2 = 28\<close>: with the height 56 a perfect
  circle. At progress equal to the distance the width of the pill is the measured width
  plus \<open>1.5 * 56\<close>, and the opacity of the label is 1. This holds of the styles of the pill
  and of the label in both directions; animated from the left the shadow interpolations
  of the same render are rejected, which is the subject of C4.
\<close>

theorem pill_endpoint_consistency:
  assumes "0 \<le> textWidth m"
  shows "visibleWidth innerWrapper (pillStyle p m 0) = 56 \<and>
         pillHeight (pillStyle p m 0) = 56 \<and>
         pillBorderRadius (pillStyle p m 0) = 56 / 2 \<and>
         wrapperBorderRadius innerWrapper = 56 / 2 \<and>
         visibleWidth innerWrapper (pillStyle p m 0) = 2 * pillBorderRadius (pillStyle p m 0) \<and>
         visibleWidth innerWrapper (pillStyle p m (distance p m)) = textWidth m + 1.5 * 56 \<and>
         labelOpacity p m (distance p m) = Inr 1"
  using assms by (simp add: pill_defs labelOpacity_def geometry_defs interpolate_defs)

theorem pill_endpoint_consistency_witness:
  "visibleWidth innerWrapper
     (pillStyle scenarioProps \<lparr>textWidth = 100, textHeight = 17\<rparr> 0) = 56 \<and>
   pillBorderRadius (pillStyle scenarioProps \<lparr>textWidth = 100, textHeight = 17\<rparr> 0) = 28 \<and>
   visibleWidth innerWrapper
     (pillStyle scenarioProps \<lparr>textWidth = 100, textHeight = 17\<rparr> (- 128)) = 184 \<and>
   labelOpacity scenarioProps \<lparr>textWidth = 100, textHeight = 17\<rparr> (- 128) = Inr 1 \<and>
   visibleWidth innerWrapper
     (pillStyle (scenarioProps\<lparr>animateFrom := Some Left\<rparr>)
        \<lparr>textWidth = 100, textHeight = 17\<rparr> 0) = 56 \<and>
   visibleWidth innerWrapper
     (pillStyle (scenarioProps\<lparr>animateFrom := Some Left\<rparr>)
        \<lparr>textWidth = 100, textHeight = 17\<rparr> 128) = 184 \<and>
   labelOpacity (scenarioProps\<lparr>animateFrom := Some Left\<rparr>)
     \<lparr>textWidth = 100, textHeight = 17\<rparr> 128 = Inr 1"
proof -
  have h: "0 \<le> textWidth \<lparr>textWidth = 100, textHeight = 17\<rparr>"
    by simp
  have r: "distance scenarioProps \<lparr>textWidth = 100, textHeight = 17\<rparr> = - 128"
    by (simp add: geometry_defs scenarioProps_def)
  have l: "distance (scenarioProps\<lparr>animateFrom := Some Left\<rparr>)
             \<lparr>textWidth = 100, textHeight = 17\<rparr> = 128"
    by (simp add: geometry_defs)
  show ?thesis
    using pill_endpoint_consistency [OF h, of scenarioProps]
      pill_endpoint_consistency [OF h, of "scenarioProps\<lparr>animateFrom := Some Left\<rparr>"]
    by (simp add: r l)
qed

text \<open>
  The collapsed silhouette has the same footprint at rest: its width is 56 at every
  progress, and animated from the right its corner radius at progress 0 is 28.
\<close>

lemma collapsed_silhouette_at_rest:
  assumes "isAnimatedFromRight p" and "0 \<le> textWidth m"
  shows "collapsedShadowWidth = 56 \<and> collapsedShadowBorderRadius p m 0 = Inr 28"
  using assms
  by (simp add: collapsedShadowWidth_def collapsedShadowBorderRadius_def geometry_defs
        interpolate_defs)

text \<open>
  The two shadow opacities when the FAB is animated from the right, where the distance is
  negative and the input range \<open>[d, 0.9 d, 0]\<close> ascends: 1, 0.15 and 0 for the extended
  silhouette, and 0, 0.85 and 1 for the collapsed one.
\<close>

lemma shadow_opacity_from_right:
  assumes "isAnimatedFromRight p" and "0 \<le> textWidth m"
  shows "expandedShadowOpacity p m (distance p m) = Inr 1 \<and>
         expandedShadowOpacity p m (0.9 * distance p m) = Inr 0.15 \<and>
         expandedShadowOpacity p m 0 = Inr 0 \<and>
         collapsedShadowOpacity p m (distance p m) = Inr 0 \<and>
         collapsedShadowOpacity p m (0.9 * distance p m) = Inr 0.85 \<and>
         collapsedShadowOpacity p m 0 = Inr 1"
  using assms
  by (simp add: expandedShadowOpacity_def collapsedShadowOpacity_def geometry_defs
        interpolate_defs)

text \<open>
  Animated from the left the distance is positive and the same input range descends, so
  both interpolations are rejected at every progress. The expressions next to them
  (\<open>pillScaleY\<close>, \<open>labelOpacity\<close>, \<open>labelTranslateX\<close>) turn their ranges round for this
  direction and are accepted.
\<close>

lemma shadow_opacity_from_left:
  assumes "\<not> isAnimatedFromRight p" and "0 \<le> textWidth m"
  shows "expandedShadowOpacity p m animFAB = Inl InvariantViolation \<and>
         collapsedShadowOpacity p m animFAB = Inl InvariantViolation"
  using assms
  by (simp add: expandedShadowOpacity_def collapsedShadowOpacity_def geometry_defs
        interpolate_defs)

lemma sibling_styles_from_left:
  assumes "\<not> isAnimatedFromRight p" and "0 \<le> textWidth m"
  shows "pillScaleY p m (distance p m) = Inr SCALE \<and>
         pillScaleY p m 0 = Inr 1 \<and>
         labelOpacity p m 0 = Inr 0 \<and>
         labelTranslateX p m (distance p m) = Inr 0"
  using assms
  by (simp add: pillScaleY_def labelOpacity_def labelTranslateX_def SCALE_def geometry_defs
        interpolate_defs)

text \<open>
  Were the descending range evaluated segment by segment without the check, the extended
  silhouette would still not get the opacities 1 and 0 at the two ends.
\<close>

lemma shadow_opacity_from_left_unchecked:
  assumes "\<not> isAnimatedFromRight p" and "0 \<le> textWidth m"
  shows "interpolateUnchecked
           \<lparr>inputRange = [distance p m, 0.9 * distance p m, 0], outputRange = [1, 0.15, 0]\<rparr>
           (distance p m) = 1 / 6 \<and>
         interpolateUnchecked
           \<lparr>inputRange = [distance p m, 0.9 * distance p m, 0], outputRange = [1, 0.15, 0]\<rparr>
           0 = - 7.5"
  using assms by (simp add: geometry_defs interpolate_defs field_simps)

text \<open>
  C4, on the code. The claim gives the shadow opacities 1, 0.15, 0 and 0, 0.85, 1 at the
  progress values \<open>d\<close>, \<open>0.9 d\<close> and 0 for every direction. Animated from the left with a
  label measured at width 100, the distance is 128 and the input range is
  \<open>[128, 115.2, 0]\<close>: neither opacity is produced, at any of the three progress values.
\<close>

theorem shadow_opacity_from_left_rejected:
  "distance (scenarioProps\<lparr>animateFrom := Some Left\<rparr>) \<lparr>textWidth = 100, textHeight = 17\<rparr>
     = 128 \<and>
   expandedShadowOpacity (scenarioProps\<lparr>animateFrom := Some Left\<rparr>)
     \<lparr>textWidth = 100, textHeight = 17\<rparr> 128 = Inl InvariantViolation \<and>
   expandedShadowOpacity (scenarioProps\<lparr>animateFrom := Some Left\<rparr>)
     \<lparr>textWidth = 100, textHeight = 17\<rparr> (0.9 * 128) = Inl InvariantViolation \<and>
   expandedShadowOpacity (scenarioProps\<lparr>animateFrom := Some Left\<rparr>)
     \<lparr>textWidth = 100, textHeight = 17\<rparr> 0 = Inl InvariantViolation \<and>
   collapsedShadowOpacity (scenarioProps\<lparr>animateFrom := Some Left\<rparr>)
     \<lparr>textWidth = 100, textHeight = 17\<rparr> 128 = Inl InvariantViolation \<and>
   collapsedShadowOpacity (scenarioProps\<lparr>animateFrom := Some Left\<rparr>)
     \<lparr>textWidth = 100, textHeight = 17\<rparr> (0.9 * 128) = Inl InvariantViolation \<and>
   collapsedShadowOpacity (scenarioProps\<lparr>animateFrom := Some Left\<rparr>)
     \<lparr>textWidth = 100, textHeight = 17\<rparr> 0 = Inl InvariantViolation"
  by (simp add: expandedShadowOpacity_def collapsedShadowOpacity_def geometry_defs
        interpolate_defs scenarioProps_def)

section \<open>Claims about the measurement\<close>

text \<open>
  An event with a first line is handled without error, and a first line whose width
  rounds up to 0 leaves a stored width of 0 at 0.
\<close>

lemma onTextLayout_zero_width_line:
  assumes "lines nativeEvent = line # rest" and "\<lceil>width line\<rceil> = 0" and "textWidth m = 0"
  shows "(\<exists>calls. onTextLayout nativeEvent m = Inr calls) \<and>
         textWidth (afterTextLayout nativeEvent m) = 0"
  using assms by (simp add: onTextLayout_def afterTextLayout_def Let_def)

text \<open>
  C8, on the code. The claim has the handler safe on the event of an empty label, the
  read of the first element of \<^verbatim>\<open>lines\<close> included. The handler does not look at the length
  of \<^verbatim>\<open>lines\<close>: on an event whose \<^verbatim>\<open>lines\<close> is empty it throws, from the initial measurement
  as from any other.
\<close>

theorem onTextLayout_no_lines_throws:
  "onTextLayout \<lparr>lines = []\<rparr> initialMeasurement = Inl TypeError"
  by (simp add: onTextLayout_def)

theorem onTextLayout_no_lines_throws_witness:
  "(\<nexists>calls. onTextLayout \<lparr>lines = []\<rparr> initialMeasurement = Inr calls) \<and>
   afterTextLayout \<lparr>lines = []\<rparr> initialMeasurement = initialMeasurement"
  using onTextLayout_no_lines_throws by (simp add: afterTextLayout_def)

text \<open>
  C9. For every text-layout event: with a first line, the handler calls the setters if
  and only if the rounded-up width or height of that line differs from the stored one,
  the stored measurement changes in exactly that case, and it then becomes the rounded-up
  pair; when both are equal no setter is called and the measurement is left as it is.
  An event with no line measures nothing and changes nothing.
\<close>

theorem measurement_updated_iff_changed:
  "(lines nativeEvent = line # rest \<longrightarrow>
      (onTextLayout nativeEvent m = Inr [] \<longleftrightarrow>
         real_of_int \<lceil>width line\<rceil> = textWidth m \<and>
         real_of_int \<lceil>height line\<rceil> = textHeight m) \<and>
      (afterTextLayout nativeEvent m \<noteq> m \<longleftrightarrow>
         real_of_int \<lceil>width line\<rceil> \<noteq> textWidth m \<or>
         real_of_int \<lceil>height line\<rceil> \<noteq> textHeight m) \<and>
      (real_of_int \<lceil>width line\<rceil> \<noteq> textWidth m \<or>
       real_of_int \<lceil>height line\<rceil> \<noteq> textHeight m \<longrightarrow>
         onTextLayout nativeEvent m =
           Inr [SetTextWidth (real_of_int \<lceil>width line\<rceil>),
                SetTextHeight (real_of_int \<lceil>height line\<rceil>)] \<and>
         afterTextLayout nativeEvent m =
           \<lparr>textWidth = real_of_int \<lceil>width line\<rceil>,
            textHeight = real_of_int \<lceil>height line\<rceil>\<rparr>)) \<and>
   (lines nativeEvent = [] \<longrightarrow> afterTextLayout nativeEvent m = m)"
  by (cases m) (auto simp: onTextLayout_def afterTextLayout_def Let_def)

theorem measurement_updated_iff_changed_witness:
  "onTextLayout \<lparr>lines = [\<lparr>width = 99.2, height = 16.5\<rparr>]\<rparr> initialMeasurement
     = Inr [SetTextWidth 100, SetTextHeight 17] \<and>
   afterTextLayout \<lparr>lines = [\<lparr>width = 99.2, height = 16.5\<rparr>]\<rparr> initialMeasurement
     = \<lparr>textWidth = 100, textHeight = 17\<rparr> \<and>
   onTextLayout \<lparr>lines = [\<lparr>width = 99.2, height = 16.5\<rparr>]\<rparr>
     \<lparr>textWidth = 100, textHeight = 17\<rparr> = Inr [] \<and>
   afterTextLayout \<lparr>lines = []\<rparr> \<lparr>textWidth = 100, textHeight = 17\<rparr>
     = \<lparr>textWidth = 100, textHeight = 17\<rparr>"
  using
    measurement_updated_iff_changed [of "\<lparr>lines = [\<lparr>width = 99.2, height = 16.5\<rparr>]\<rparr>"
      "\<lparr>width = 99.2, height = 16.5\<rparr>" "[]" initialMeasurement]
    measurement_updated_iff_changed [of "\<lparr>lines = [\<lparr>width = 99.2, height = 16.5\<rparr>]\<rparr>"
      "\<lparr>width = 99.2, height = 16.5\<rparr>" "[]" "\<lparr>textWidth = 100, textHeight = 17\<rparr>"]
    measurement_updated_iff_changed [of "\<lparr>lines = []\<rparr>"
      "\<lparr>width = 0, height = 0\<rparr>" "[]" "\<lparr>textWidth = 100, textHeight = 17\<rparr>"]
  by (simp add: initialMeasurement_def)

section \<open>Claims about the colours\<close>

text \<open>
  C5. The precedence of the foreground colour, for every input and every measure of
  contrast: a supplied override colour is the foreground; otherwise, when disabled, the
  foreground is the neutral ink (white on a dark theme, black on a light one) at 32%
  opacity; otherwise it is the one of white and the near-black fallback with the higher
  contrast against the background colour. In every case the ripple colour is the
  foreground at 32% opacity.
\<close>

theorem foreground_precedence:
  "(color p = Some c \<longrightarrow> foregroundColor contrast p = c) \<and>
   (color p = None \<and> disabled p = Some True \<longrightarrow>
      foregroundColor contrast p = (if dark (theme p) then white else black)\<lparr>alpha := 0.32\<rparr>) \<and>
   (color p = None \<and> disabled p \<noteq> Some True \<longrightarrow>
      (foregroundColor contrast p = white \<or> foregroundColor contrast p = nearBlack) \<and>
      contrast (backgroundColor p) (foregroundColor contrast p) =
        max (contrast (backgroundColor p) white) (contrast (backgroundColor p) nearBlack)) \<and>
   rippleColor contrast p = (foregroundColor contrast p)\<lparr>alpha := 0.32\<rparr>"
  by (auto simp: foregroundColor_def rippleColor_def isDisabled_def getContrastingColor_def
        split: option.splits)

theorem foreground_precedence_witness:
  "foregroundColor (\<lambda>a b. \<bar>real (red a) - real (red b)\<bar>)
     (scenarioProps\<lparr>color := Some \<lparr>red = 255, green = 0, blue = 0, alpha = 1\<rparr>\<rparr>)
     = \<lparr>red = 255, green = 0, blue = 0, alpha = 1\<rparr> \<and>
   foregroundColor (\<lambda>a b. \<bar>real (red a) - real (red b)\<bar>)
     (scenarioProps\<lparr>disabled := Some True\<rparr>)
     = \<lparr>red = 0, green = 0, blue = 0, alpha = 0.32\<rparr> \<and>
   foregroundColor (\<lambda>a b. \<bar>real (red a) - real (red b)\<bar>) scenarioProps = white \<and>
   rippleColor (\<lambda>a b. \<bar>real (red a) - real (red b)\<bar>) scenarioProps
     = \<lparr>red = 255, green = 255, blue = 255, alpha = 0.32\<rparr>"
  using
    foreground_precedence [of
      "scenarioProps\<lparr>color := Some \<lparr>red = 255, green = 0, blue = 0, alpha = 1\<rparr>\<rparr>"
      "\<lparr>red = 255, green = 0, blue = 0, alpha = 1\<rparr>"
      "\<lambda>a b. \<bar>real (red a) - real (red b)\<bar>"]
    foreground_precedence [of "scenarioProps\<lparr>disabled := Some True\<rparr>" white
      "\<lambda>a b. \<bar>real (red a) - real (red b)\<bar>"]
    foreground_precedence [of scenarioProps white
      "\<lambda>a b. \<bar>real (red a) - real (red b)\<bar>"]
  by (auto simp: scenarioProps_def backgroundColor_def isDisabled_def white_def black_def
        nearBlack_def)

text \<open>
  C6. When disabled is true and the caller gives neither a background colour in the style
  nor an override colour, the background is the neutral ink at 12% opacity and the
  foreground is the neutral ink at 32% opacity, on both themes; the theme only selects
  the ink, white when dark and black when light.
\<close>

theorem disabled_colours:
  assumes "disabled p = Some True" and "styleBackgroundColor p = None" and "color p = None"
  shows "backgroundColor p = (if dark (theme p) then white else black)\<lparr>alpha := 0.12\<rparr> \<and>
         foregroundColor contrast p
           = (if dark (theme p) then white else black)\<lparr>alpha := 0.32\<rparr>"
  using assms
  by (simp add: backgroundColor_def foregroundColor_def disabledColor_def isDisabled_def)

theorem disabled_colours_witness:
  "backgroundColor (scenarioProps\<lparr>disabled := Some True\<rparr>)
     = \<lparr>red = 0, green = 0, blue = 0, alpha = 0.12\<rparr> \<and>
   foregroundColor (\<lambda>a b. 0) (scenarioProps\<lparr>disabled := Some True\<rparr>)
     = \<lparr>red = 0, green = 0, blue = 0, alpha = 0.32\<rparr> \<and>
   backgroundColor
     (scenarioProps\<lparr>disabled := Some True, theme := (theme scenarioProps)\<lparr>dark := True\<rparr>\<rparr>)
     = \<lparr>red = 255, green = 255, blue = 255, alpha = 0.12\<rparr> \<and>
   foregroundColor (\<lambda>a b. 0)
     (scenarioProps\<lparr>disabled := Some True, theme := (theme scenarioProps)\<lparr>dark := True\<rparr>\<rparr>)
     = \<lparr>red = 255, green = 255, blue = 255, alpha = 0.32\<rparr>"
proof -
  have light: "disabled (scenarioProps\<lparr>disabled := Some True\<rparr>) = Some True"
    "styleBackgroundColor (scenarioProps\<lparr>disabled := Some True\<rparr>) = None"
    "color (scenarioProps\<lparr>disabled := Some True\<rparr>) = None"
    by (simp_all add: scenarioProps_def)
  have dark:
    "disabled (scenarioProps\<lparr>disabled := Some True,
       theme := (theme scenarioProps)\<lparr>dark := True\<rparr>\<rparr>) = Some True"
    "styleBackgroundColor (scenarioProps\<lparr>disabled := Some True,
       theme := (theme scenarioProps)\<lparr>dark := True\<rparr>\<rparr>) = None"
    "color (scenarioProps\<lparr>disabled := Some True,
       theme := (theme scenarioProps)\<lparr>dark := True\<rparr>\<rparr>) = None"
    by (simp_all add: scenarioProps_def)
  show ?thesis
    using disabled_colours [OF light, of "\<lambda>a b. 0"] disabled_colours [OF dark, of "\<lambda>a b. 0"]
    by (simp add: scenarioProps_def white_def black_def)
qed

end
